theory Spec2Isabelle
  imports Main
begin

section \<open>Python values\<close>

text \<open>
  The gateway and the tools exchange JSON documents. A Python \<^verbatim>\<open>dict\<close> keeps its
  insertion order, so it is an association list, whose keys are distinct; \<^verbatim>\<open>None\<close> is
  \<open>JNull\<close>. JSON numbers are Python integers here (no floating point value occurs in
  the code verified below).
\<close>

datatype json =
    JNull
  | JBool bool
  | JInt int
  | JStr string
  | JList "json list"
  | JDict "(string \<times> json) list"

type_synonym dict = "(string \<times> json) list"

text \<open>\<^verbatim>\<open>d.get(k, default)\<close>\<close>

definition dict_get :: "dict \<Rightarrow> string \<Rightarrow> json \<Rightarrow> json" where
  "dict_get d k dflt = (case map_of d k of None \<Rightarrow> dflt | Some v \<Rightarrow> v)"

text \<open>\<^verbatim>\<open>k in d\<close>\<close>

definition dict_contains :: "(string \<times> 'v) list \<Rightarrow> string \<Rightarrow> bool" where
  "dict_contains d k = (k \<in> set (map fst d))"

text \<open>Python's truth value of an object, as \<^verbatim>\<open>if not x\<close> and \<^verbatim>\<open>x or y\<close> test it.\<close>

fun truthy :: "json \<Rightarrow> bool" where
  "truthy JNull = False"
| "truthy (JBool b) = b"
| "truthy (JInt i) = (i \<noteq> 0)"
| "truthy (JStr s) = (s \<noteq> [])"
| "truthy (JList xs) = (xs \<noteq> [])"
| "truthy (JDict kvs) = (kvs \<noteq> [])"

subsection \<open>\<^verbatim>\<open>str()\<close> and \<^verbatim>\<open>repr()\<close>, as f-strings apply them\<close>

definition digit_char :: "nat \<Rightarrow> char" where
  "digit_char n = ''0123456789'' ! (n mod 10)"

definition hex_char :: "nat \<Rightarrow> char" where
  "hex_char n = ''0123456789abcdef'' ! (n mod 16)"

fun dec :: "nat \<Rightarrow> string" where
  "dec n = (if n < 10 then [digit_char n] else dec (n div 10) @ [digit_char n])"

declare dec.simps [simp del]

definition str_int :: "int \<Rightarrow> string" where
  "str_int i = (if i < 0 then CHR ''-'' # dec (nat (- i)) else dec (nat i))"

text \<open>
  \<^verbatim>\<open>repr\<close> of a string: double quotes only when the text holds a single quote and no
  double quote; the quote and the backslash are escaped, control characters are written
  \<^verbatim>\<open>\t\<close>, \<^verbatim>\<open>\n\<close>, \<^verbatim>\<open>\r\<close> or \<^verbatim>\<open>\xhh\<close>. A \<open>char\<close> is a byte: the bytes of a
  printable non-ASCII character are copied as they are.
\<close>

definition repr_quote :: "string \<Rightarrow> char" where
  "repr_quote s = (if CHR 0x27 \<in> set s \<and> CHR 0x22 \<notin> set s then CHR 0x22 else CHR 0x27)"

definition repr_char :: "char \<Rightarrow> char \<Rightarrow> string" where
  "repr_char q c =
     (if c = q \<or> c = CHR 0x5C then [CHR 0x5C, c]
      else if c = CHR 0x09 then [CHR 0x5C, CHR ''t'']
      else if c = CHR 0x0A then [CHR 0x5C, CHR ''n'']
      else if c = CHR 0x0D then [CHR 0x5C, CHR ''r'']
      else if of_char c < (32::nat) \<or> of_char c = (127::nat)
        then [CHR 0x5C, CHR ''x'', hex_char (of_char c div 16), hex_char (of_char c)]
      else [c])"

definition repr_str :: "string \<Rightarrow> string" where
  "repr_str s = (let q = repr_quote s in q # concat (map (repr_char q) s) @ [q])"

text \<open>A text between single quotes, as f-strings of the source print names.\<close>

definition quoted :: "string \<Rightarrow> string" where
  "quoted s = CHR 0x27 # s @ [CHR 0x27]"

fun join :: "string \<Rightarrow> string list \<Rightarrow> string" where
  "join sep [] = []"
| "join sep [x] = x"
| "join sep (x # y # ys) = x @ sep @ join sep (y # ys)"

fun py_repr :: "json \<Rightarrow> string" where
  "py_repr JNull = ''None''"
| "py_repr (JBool b) = (if b then ''True'' else ''False'')"
| "py_repr (JInt i) = str_int i"
| "py_repr (JStr s) = repr_str s"
| "py_repr (JList xs) = ''['' @ join '', '' (map py_repr xs) @ '']''"
| "py_repr (JDict kvs) =
     ''{'' @ join '', '' (map (\<lambda>kv. repr_str (fst kv) @ '': '' @ py_repr (snd kv)) kvs) @ ''}''"

fun py_str :: "json \<Rightarrow> string" where
  "py_str (JStr s) = s"
| "py_str j = py_repr j"

subsection \<open>Exceptions\<close>

text \<open>
  Everything the code raises derives from \<^verbatim>\<open>Exception\<close>. \<open>HTTPException\<close> is FastAPI's,
  with its status code and detail; \<open>Exception m\<close> is any other exception, \<open>m\<close> being
  what \<^verbatim>\<open>str(e)\<close> gives. A computation that may raise has a result of type
  \<open>py_exception + 'a\<close>.
\<close>

datatype py_exception =
    Exception string
  | HTTPException nat string

fun str_exc :: "py_exception \<Rightarrow> string" where
  "str_exc (Exception m) = m"
| "str_exc (HTTPException code detail) = dec code @ '': '' @ detail"

text \<open>\<^verbatim>\<open>try: body  except Exception as e: handler(e)\<close>\<close>

definition try_except ::
  "(py_exception + 'a) \<Rightarrow> (py_exception \<Rightarrow> py_exception + 'a) \<Rightarrow> py_exception + 'a" where
  "try_except body handler = (case body of Inl e \<Rightarrow> handler e | Inr v \<Rightarrow> Inr v)"

subsection \<open>\<^verbatim>\<open>datetime\<close>\<close>

record datetime =
  year :: nat
  month :: nat
  day :: nat
  hour :: nat
  minute :: nat
  second :: nat
  microsecond :: nat

definition d2 :: "nat \<Rightarrow> string" where
  "d2 n = [digit_char (n div 10), digit_char n]"

definition d4 :: "nat \<Rightarrow> string" where
  "d4 n = [digit_char (n div 1000), digit_char (n div 100), digit_char (n div 10), digit_char n]"

definition d6 :: "nat \<Rightarrow> string" where
  "d6 n = [digit_char (n div 100000), digit_char (n div 10000), digit_char (n div 1000),
           digit_char (n div 100), digit_char (n div 10), digit_char n]"

text \<open>\<^verbatim>\<open>t.strftime('%Y%m%d%H%M%S')\<close>, for a four-digit year.\<close>

definition strftime_YmdHMS :: "datetime \<Rightarrow> string" where
  "strftime_YmdHMS t =
     d4 (year t) @ d2 (month t) @ d2 (day t) @ d2 (hour t) @ d2 (minute t) @ d2 (second t)"

text \<open>\<^verbatim>\<open>t.isoformat()\<close>: the fraction is printed only when it is not zero.\<close>

definition isoformat :: "datetime \<Rightarrow> string" where
  "isoformat t =
     d4 (year t) @ ''-'' @ d2 (month t) @ ''-'' @ d2 (day t) @ ''T'' @
     d2 (hour t) @ '':'' @ d2 (minute t) @ '':'' @ d2 (second t) @
     (if microsecond t = 0 then [] else ''.'' @ d6 (microsecond t))"



section \<open>The A2A gateway (\<^verbatim>\<open>service/a2a_gateway/main.py\<close>)\<close>

subsection \<open>Configuration\<close>

text \<open>The three environment variables, read once when the module is loaded.\<close>

record config =
  PROJECT_ID :: string
  LOCATION :: string
  ENV :: string

definition AGENT_ENGINE_IDS :: "config \<Rightarrow> (string \<times> string) list" where
  "AGENT_ENGINE_IDS cfg =
     [(''orchestrator'', ''intentvision-orchestrator-'' @ ENV cfg),
      (''metric-analyst'', ''intentvision-metric-analyst-'' @ ENV cfg),
      (''alert-tuner'', ''intentvision-alert-tuner-'' @ ENV cfg),
      (''onboarding-coach'', ''intentvision-onboarding-coach-'' @ ENV cfg)]"

subsection \<open>The models of the A2A protocol\<close>

record AgentSkill =
  skill_name :: string
  skill_description :: string
  input_schema :: dict
  output_schema :: dict

record AgentCard =
  protocol_version :: string
  name :: string
  version :: string
  url :: string
  description :: string
  capabilities :: "string list"
  skills :: "AgentSkill list"
  spiffe_id :: "string option"

record TaskRequest =
  skill :: string
  input :: dict
  session_id :: "string option"
  trace_id :: "string option"

record TaskStatus =
  task_id :: string
  status :: string
  created_at :: string
  updated_at :: string
  result :: "dict option"
  error :: "string option"

subsection \<open>The world a handler runs in\<close>

text \<open>
  A handler reads the system clock and talks to the backend. \<open>utcnow_seq w k\<close> is what the
  \<open>k\<close>-th call of \<^verbatim>\<open>datetime.utcnow()\<close> returns, \<open>ticks w\<close> counts the calls made so
  far, and \<open>backend w\<close> is the state of whatever stands behind the agent client.
\<close>

record 'b world =
  utcnow_seq :: "nat \<Rightarrow> datetime"
  ticks :: nat
  backend :: 'b

definition utcnow :: "'b world \<Rightarrow> datetime \<times> 'b world" where
  "utcnow w = (utcnow_seq w (ticks w), w\<lparr>ticks := Suc (ticks w)\<rparr>)"

subsection \<open>The agent engine client\<close>

text \<open>
  The gateway only calls \<^verbatim>\<open>agent_client.send_message(agent_engine_id, message, session_id)\<close>:
  a client is any object with that method, which returns a dict or raises.
\<close>

type_synonym 'b client =
  "string \<Rightarrow> string \<Rightarrow> json \<Rightarrow> 'b world \<Rightarrow> (py_exception + dict) \<times> 'b world"

text \<open>\<^verbatim>\<open>AgentEngineClient.send_message\<close>, the stub of the source; it never raises.\<close>

definition send_message :: "string \<Rightarrow> string \<Rightarrow> 'b client" where
  "send_message project_id location agent_engine_id message sid w =
     (let (t, w1) = utcnow w in
      (Inr [(''session_id'',
               if truthy sid then sid else JStr (''session-'' @ agent_engine_id)),
            (''response'', JStr (''[Stub] Agent '' @ agent_engine_id @ '' received: '' @ message)),
            (''agent_engine_id'', JStr agent_engine_id),
            (''timestamp'', JStr (isoformat t))],
       w1))"

text \<open>\<^verbatim>\<open>lifespan\<close> sets the global \<^verbatim>\<open>agent_client\<close>, which is \<^verbatim>\<open>None\<close> before.\<close>

definition lifespan :: "config \<Rightarrow> 'b client option" where
  "lifespan cfg = Some (send_message (PROJECT_ID cfg) (LOCATION cfg))"

text \<open>
  A call of \<^verbatim>\<open>agent_client.send_message(...)\<close> on the global: on \<^verbatim>\<open>None\<close> the attribute
  lookup raises \<^verbatim>\<open>AttributeError\<close>.
\<close>

definition call_send_message ::
  "'b client option \<Rightarrow> string \<Rightarrow> string \<Rightarrow> json \<Rightarrow> 'b world \<Rightarrow>
   (py_exception + dict) \<times> 'b world" where
  "call_send_message agent_client agent_engine_id message sid w =
     (case agent_client of
        None \<Rightarrow>
          (Inl (Exception (quoted ''NoneType'' @ '' object has no attribute '' @
                           quoted ''send_message'')), w)
      | Some c \<Rightarrow> c agent_engine_id message sid w)"

subsection \<open>What FastAPI answers\<close>

text \<open>
  A value returned by a handler is sent with status 200, an \<open>HTTPException\<close> with its own
  status code, and any other exception as 500 (Internal Server Error).
\<close>

fun http_status :: "py_exception + 'a \<Rightarrow> nat" where
  "http_status (Inr v) = 200"
| "http_status (Inl (HTTPException code detail)) = code"
| "http_status (Inl (Exception m)) = 500"

subsection \<open>Endpoints\<close>

definition list_agents :: "config \<Rightarrow> string list" where
  "list_agents cfg = map fst (AGENT_ENGINE_IDS cfg)"

definition cards :: "config \<Rightarrow> (string \<times> AgentCard) list" where
  "cards cfg =
     [(''orchestrator'',
       \<lparr>protocol_version = ''0.3.0'',
        name = ''intentvision-orchestrator'',
        version = ''0.14.1'',
        url = ''https://agents.intentvision.intent-solutions.io/orchestrator'',
        description = ''IntentVision Orchestrator - Routes requests to specialists'',
        capabilities = [''routing'', ''coordination'', ''forecast_explanation''],
        skills =
          [\<lparr>skill_name = ''Explain Forecast'',
            skill_description = ''Explain forecast predictions for a metric'',
            input_schema = [(''type'', JStr ''object''),
                            (''required'', JList [JStr ''org_id'', JStr ''metric_key''])],
            output_schema = []\<rparr>,
           \<lparr>skill_name = ''Analyze Alerts'',
            skill_description = ''Analyze alert rules and recommend changes'',
            input_schema = [(''type'', JStr ''object''), (''required'', JList [JStr ''org_id''])],
            output_schema = []\<rparr>],
        spiffe_id = Some (''spiffe://intent-solutions.io/agent/intentvision-orchestrator/'' @
                          ENV cfg @ ''/'' @ LOCATION cfg @ ''/0.14.1'')\<rparr>),
      (''metric-analyst'',
       \<lparr>protocol_version = ''0.3.0'',
        name = ''metric-analyst'',
        version = ''0.14.1'',
        url = ''https://agents.intentvision.intent-solutions.io/metric-analyst'',
        description = ''IntentVision Metric Analyst - Forecast and anomaly analysis'',
        capabilities = [''forecast_explanation'', ''anomaly_analysis'', ''backend_comparison''],
        skills =
          [\<lparr>skill_name = ''Explain Forecast'',
            skill_description = ''Provide detailed explanation of forecast predictions'',
            input_schema = [(''type'', JStr ''object''),
                            (''required'', JList [JStr ''org_id'', JStr ''metric_key''])],
            output_schema = []\<rparr>],
        spiffe_id = Some (''spiffe://intent-solutions.io/agent/metric-analyst/'' @
                          ENV cfg @ ''/'' @ LOCATION cfg @ ''/0.14.1'')\<rparr>),
      (''alert-tuner'',
       \<lparr>protocol_version = ''0.3.0'',
        name = ''alert-tuner'',
        version = ''0.14.1'',
        url = ''https://agents.intentvision.intent-solutions.io/alert-tuner'',
        description = ''IntentVision Alert Tuner - Alert optimization'',
        capabilities = [''alert_analysis'', ''threshold_optimization'', ''noise_reduction''],
        skills =
          [\<lparr>skill_name = ''Analyze Alerts'',
            skill_description = ''Analyze alert rules and firing patterns'',
            input_schema = [(''type'', JStr ''object''), (''required'', JList [JStr ''org_id''])],
            output_schema = []\<rparr>],
        spiffe_id = Some (''spiffe://intent-solutions.io/agent/alert-tuner/'' @
                          ENV cfg @ ''/'' @ LOCATION cfg @ ''/0.14.1'')\<rparr>),
      (''onboarding-coach'',
       \<lparr>protocol_version = ''0.3.0'',
        name = ''onboarding-coach'',
        version = ''0.14.1'',
        url = ''https://agents.intentvision.intent-solutions.io/onboarding-coach'',
        description = ''IntentVision Onboarding Coach - Setup assistance'',
        capabilities = [''connection_guidance'', ''metric_configuration''],
        skills =
          [\<lparr>skill_name = ''Guide Connection'',
            skill_description = ''Guide user through connecting a data source'',
            input_schema = [(''type'', JStr ''object''),
                            (''required'', JList [JStr ''org_id'', JStr ''source_type''])],
            output_schema = []\<rparr>],
        spiffe_id = Some (''spiffe://intent-solutions.io/agent/onboarding-coach/'' @
                          ENV cfg @ ''/'' @ LOCATION cfg @ ''/0.14.1'')\<rparr>)]"

definition get_agent_card :: "config \<Rightarrow> string \<Rightarrow> py_exception + AgentCard" where
  "get_agent_card cfg agent_name =
     (if \<not> dict_contains (AGENT_ENGINE_IDS cfg) agent_name
      then Inl (HTTPException 404 (''Agent not found: '' @ agent_name))
      else Inr (case map_of (cards cfg) agent_name of
                  Some found \<Rightarrow> found
                | None \<Rightarrow>
                    \<lparr>protocol_version = ''0.3.0'',
                     name = agent_name,
                     version = ''0.14.1'',
                     url = ''https://agents.intentvision.intent-solutions.io/'' @ agent_name,
                     description = ''IntentVision '' @ agent_name,
                     capabilities = [],
                     skills = [],
                     spiffe_id = None\<rparr>))"

text \<open>An \<^verbatim>\<open>Optional[str]\<close> as the value handed on: \<^verbatim>\<open>None\<close> or the string.\<close>

definition optional_str :: "string option \<Rightarrow> json" where
  "optional_str s = (case s of None \<Rightarrow> JNull | Some v \<Rightarrow> JStr v)"

text \<open>\<^verbatim>\<open>f"Execute skill '{request.skill}' with input: {request.input}"\<close>\<close>

definition task_message :: "TaskRequest \<Rightarrow> string" where
  "task_message request =
     ''Execute skill '' @ quoted (skill request) @ '' with input: '' @
     py_str (JDict (input request))"

text \<open>\<^verbatim>\<open>f"[Organization: {org_id}] {message}"\<close>\<close>

definition chat_message :: "json \<Rightarrow> json \<Rightarrow> string" where
  "chat_message org_id message = ''[Organization: '' @ py_str org_id @ ''] '' @ py_str message"

text \<open>
  \<^verbatim>\<open>submit_task\<close>. The lookup \<^verbatim>\<open>AGENT_ENGINE_IDS[agent_name]\<close> stands before the
  \<^verbatim>\<open>try\<close>, so its \<^verbatim>\<open>KeyError\<close> would leave the handler; the call of the backend and
  the three (or two) readings of the clock follow in the order of the source.
\<close>

definition submit_task ::
  "config \<Rightarrow> 'b client option \<Rightarrow> string \<Rightarrow> TaskRequest \<Rightarrow> 'b world \<Rightarrow>
   (py_exception + TaskStatus) \<times> 'b world" where
  "submit_task cfg agent_client agent_name request w =
     (if \<not> dict_contains (AGENT_ENGINE_IDS cfg) agent_name
      then (Inl (HTTPException 404 (''Agent not found: '' @ agent_name)), w)
      else
        case map_of (AGENT_ENGINE_IDS cfg) agent_name of
          None \<Rightarrow> (Inl (Exception (repr_str agent_name)), w)
        | Some agent_engine_id \<Rightarrow>
            let message = task_message request
            in
              case call_send_message agent_client agent_engine_id message
                     (optional_str (session_id request)) w of
                (Inr response, w1) \<Rightarrow>
                  let (t0, w2) = utcnow w1;
                      task_id = ''task-'' @ agent_name @ ''-'' @ strftime_YmdHMS t0;
                      (t1, w3) = utcnow w2;
                      (t2, w4) = utcnow w3
                  in (Inr \<lparr>task_id = task_id,
                           status = ''completed'',
                           created_at = isoformat t1,
                           updated_at = isoformat t2,
                           result = Some response,
                           error = None\<rparr>, w4)
              | (Inl e, w1) \<Rightarrow>
                  let (t1, w2) = utcnow w1;
                      (t2, w3) = utcnow w2
                  in (Inr \<lparr>task_id = ''task-'' @ agent_name @ ''-error'',
                           status = ''failed'',
                           created_at = isoformat t1,
                           updated_at = isoformat t2,
                           result = None,
                           error = Some (str_exc e)\<rparr>, w3))"

text \<open>The name of a value's type, as an \<^verbatim>\<open>AttributeError\<close> prints it.\<close>

fun type_name :: "json \<Rightarrow> string" where
  "type_name JNull = ''NoneType''"
| "type_name (JBool b) = ''bool''"
| "type_name (JInt i) = ''int''"
| "type_name (JStr s) = ''str''"
| "type_name (JList xs) = ''list''"
| "type_name (JDict kvs) = ''dict''"

text \<open>
  \<^verbatim>\<open>chat_with_orchestrator\<close>. Its argument is the outcome of \<^verbatim>\<open>await request.json()\<close>:
  the decoded body, or the decoder's exception. A body that is not an object has no
  \<^verbatim>\<open>get\<close>. Nothing here is inside a \<^verbatim>\<open>try\<close>.
\<close>

definition chat_with_orchestrator ::
  "config \<Rightarrow> 'b client option \<Rightarrow> py_exception + json \<Rightarrow> 'b world \<Rightarrow>
   (py_exception + dict) \<times> 'b world" where
  "chat_with_orchestrator cfg agent_client request_json w =
     (case request_json of
        Inl e \<Rightarrow> (Inl e, w)
      | Inr (JDict body) \<Rightarrow>
          let message = dict_get body ''message'' (JStr []);
              org_id = dict_get body ''org_id'' (JStr []);
              sid = dict_get body ''session_id'' JNull
          in
            if \<not> truthy message then (Inl (HTTPException 400 ''message is required''), w)
            else if \<not> truthy org_id then (Inl (HTTPException 400 ''org_id is required''), w)
            else
              (case map_of (AGENT_ENGINE_IDS cfg) ''orchestrator'' of
                 None \<Rightarrow> (Inl (Exception (repr_str ''orchestrator'')), w)
               | Some agent_engine_id \<Rightarrow>
                   let full_message = chat_message org_id message
                   in
                     case call_send_message agent_client agent_engine_id full_message sid w of
                       (Inl e, w1) \<Rightarrow> (Inl e, w1)
                     | (Inr response, w1) \<Rightarrow>
                         (Inr [(''response'', dict_get response ''response'' (JStr [])),
                               (''session_id'', dict_get response ''session_id'' JNull),
                               (''trace_id'', dict_get response ''trace_id'' JNull)], w1))
      | Inr other \<Rightarrow>
          (Inl (Exception (quoted (type_name other) @ '' object has no attribute '' @
                           quoted ''get'')), w))"

section \<open>The tools (\<^verbatim>\<open>agents/shared_tools/intentvision_api.py\<close>)\<close>

subsection \<open>The HTTP client\<close>

text \<open>
  \<^verbatim>\<open>httpx.get\<close> and \<^verbatim>\<open>httpx.post\<close> send one request: they return a response, or raise
  (time-out, connection failure). The network is a function of the request.
  \<^verbatim>\<open>response.raise_for_status()\<close> raises unless the status is 2xx, with the text held in
  \<open>status_error\<close>; \<^verbatim>\<open>response.json()\<close> gives the decoded body or raises on a malformed
  one.
\<close>

record httpx_request =
  http_method :: string
  target :: string
  params :: dict
  json_body :: "json option"
  headers :: "(string \<times> string) list"
  timeout :: nat

record httpx_response =
  status_code :: nat
  status_error :: string
  json_result :: "py_exception + json"

type_synonym network = "httpx_request \<Rightarrow> py_exception + httpx_response"

definition raise_for_status :: "httpx_response \<Rightarrow> py_exception + unit" where
  "raise_for_status response =
     (if 200 \<le> status_code response \<and> status_code response < 300 then Inr ()
      else Inl (Exception (status_error response)))"

text \<open>One statement after another: the second runs only if the first did not raise.\<close>

definition and_then ::
  "(py_exception + 'a) \<Rightarrow> ('a \<Rightarrow> py_exception + 'b) \<Rightarrow> py_exception + 'b" where
  "and_then m f = (case m of Inl e \<Rightarrow> Inl e | Inr v \<Rightarrow> f v)"

text \<open>
  The failure of an exchange, if any: the exception of the call, of the status check or
  of the decoding, in the order in which the tools run them.
\<close>

definition transport_failure :: "network \<Rightarrow> httpx_request \<Rightarrow> py_exception option" where
  "transport_failure net req =
     (case net req of
        Inl e \<Rightarrow> Some e
      | Inr response \<Rightarrow>
          (case raise_for_status response of
             Inl e \<Rightarrow> Some e
           | Inr u \<Rightarrow> (case json_result response of Inl e \<Rightarrow> Some e | Inr v \<Rightarrow> None)))"

text \<open>The decoded body of an exchange that succeeds.\<close>

definition transport_payload :: "network \<Rightarrow> httpx_request \<Rightarrow> json option" where
  "transport_payload net req =
     (case net req of
        Inl e \<Rightarrow> None
      | Inr response \<Rightarrow>
          (case raise_for_status response of
             Inl e \<Rightarrow> None
           | Inr u \<Rightarrow> (case json_result response of Inl e \<Rightarrow> None | Inr v \<Rightarrow> Some v)))"

subsection \<open>Configuration\<close>

record api_config =
  INTENTVISION_API_URL :: string
  INTENTVISION_API_KEY :: string

definition get_headers :: "api_config \<Rightarrow> (string \<times> string) list" where
  "get_headers api =
     [(''X-API-Key'', INTENTVISION_API_KEY api), (''Content-Type'', ''application/json'')]"

subsection \<open>The requests the tools send\<close>

definition get_forecast_request ::
  "api_config \<Rightarrow> string \<Rightarrow> string \<Rightarrow> int \<Rightarrow> string \<Rightarrow> httpx_request" where
  "get_forecast_request api org_id metric_key horizon backend_name =
     \<lparr>http_method = ''GET'',
      target = INTENTVISION_API_URL api @ ''/v1/forecast/'' @ org_id @ ''/'' @ metric_key,
      params = [(''horizon'', JInt horizon), (''backend'', JStr backend_name)],
      json_body = None,
      headers = get_headers api,
      timeout = 30\<rparr>"

definition get_anomalies_request ::
  "api_config \<Rightarrow> string \<Rightarrow> string option \<Rightarrow> string \<Rightarrow> string \<Rightarrow> httpx_request" where
  "get_anomalies_request api org_id metric_key time_range min_severity =
     \<lparr>http_method = ''GET'',
      target = INTENTVISION_API_URL api @ ''/v1/anomalies/'' @ org_id,
      params = [(''time_range'', JStr time_range), (''min_severity'', JStr min_severity)] @
               (case metric_key of
                  None \<Rightarrow> []
                | Some k \<Rightarrow> if k \<noteq> [] then [(''metric_key'', JStr k)] else []),
      json_body = None,
      headers = get_headers api,
      timeout = 30\<rparr>"

definition get_metric_history_request ::
  "api_config \<Rightarrow> string \<Rightarrow> string \<Rightarrow> string \<Rightarrow> httpx_request" where
  "get_metric_history_request api org_id metric_key time_range =
     \<lparr>http_method = ''GET'',
      target = INTENTVISION_API_URL api @ ''/v1/metrics/'' @ org_id @ ''/'' @ metric_key @
               ''/history'',
      params = [(''time_range'', JStr time_range)],
      json_body = None,
      headers = get_headers api,
      timeout = 30\<rparr>"

definition get_alert_rules_request :: "api_config \<Rightarrow> string \<Rightarrow> httpx_request" where
  "get_alert_rules_request api org_id =
     \<lparr>http_method = ''GET'',
      target = INTENTVISION_API_URL api @ ''/v1/alerts/'' @ org_id @ ''/rules'',
      params = [],
      json_body = None,
      headers = get_headers api,
      timeout = 30\<rparr>"

definition get_alert_history_request ::
  "api_config \<Rightarrow> string \<Rightarrow> string option \<Rightarrow> string \<Rightarrow> httpx_request" where
  "get_alert_history_request api org_id rule_id time_range =
     \<lparr>http_method = ''GET'',
      target = INTENTVISION_API_URL api @ ''/v1/alerts/'' @ org_id @ ''/history'',
      params = [(''time_range'', JStr time_range)] @
               (case rule_id of
                  None \<Rightarrow> []
                | Some r \<Rightarrow> if r \<noteq> [] then [(''rule_id'', JStr r)] else []),
      json_body = None,
      headers = get_headers api,
      timeout = 30\<rparr>"

definition run_pipeline_request :: "api_config \<Rightarrow> string \<Rightarrow> bool \<Rightarrow> httpx_request" where
  "run_pipeline_request api org_id use_synthetic =
     \<lparr>http_method = ''POST'',
      target = INTENTVISION_API_URL api @ ''/v1/pipeline/'' @ org_id @ ''/run'',
      params = [],
      json_body = Some (JDict [(''use_synthetic'', JBool use_synthetic)]),
      headers = get_headers api,
      timeout = 60\<rparr>"

subsection \<open>The tools\<close>

text \<open>
  Each tool is \<^verbatim>\<open>try: response = httpx.get(...); response.raise_for_status();
  return response.json()\<close> with \<^verbatim>\<open>except Exception as e: return {...}\<close>.
\<close>

definition get_forecast ::
  "api_config \<Rightarrow> network \<Rightarrow> string \<Rightarrow> string \<Rightarrow> int \<Rightarrow> string \<Rightarrow> py_exception + json" where
  "get_forecast api net org_id metric_key horizon backend_name =
     try_except
       (and_then (net (get_forecast_request api org_id metric_key horizon backend_name))
          (\<lambda>response. and_then (raise_for_status response) (\<lambda>_. json_result response)))
       (\<lambda>e. Inr (JDict [(''error'', JStr (str_exc e)), (''success'', JBool False)]))"

definition get_anomalies ::
  "api_config \<Rightarrow> network \<Rightarrow> string \<Rightarrow> string option \<Rightarrow> string \<Rightarrow> string \<Rightarrow>
   py_exception + json" where
  "get_anomalies api net org_id metric_key time_range min_severity =
     try_except
       (and_then (net (get_anomalies_request api org_id metric_key time_range min_severity))
          (\<lambda>response. and_then (raise_for_status response) (\<lambda>_. json_result response)))
       (\<lambda>e. Inr (JDict [(''error'', JStr (str_exc e)), (''success'', JBool False),
                        (''anomalies'', JList [])]))"

definition get_metric_history ::
  "api_config \<Rightarrow> network \<Rightarrow> string \<Rightarrow> string \<Rightarrow> string \<Rightarrow> py_exception + json" where
  "get_metric_history api net org_id metric_key time_range =
     try_except
       (and_then (net (get_metric_history_request api org_id metric_key time_range))
          (\<lambda>response. and_then (raise_for_status response) (\<lambda>_. json_result response)))
       (\<lambda>e. Inr (JDict [(''error'', JStr (str_exc e)), (''success'', JBool False),
                        (''values'', JList [])]))"

definition get_alert_rules :: "api_config \<Rightarrow> network \<Rightarrow> string \<Rightarrow> py_exception + json" where
  "get_alert_rules api net org_id =
     try_except
       (and_then (net (get_alert_rules_request api org_id))
          (\<lambda>response. and_then (raise_for_status response) (\<lambda>_. json_result response)))
       (\<lambda>e. Inr (JDict [(''error'', JStr (str_exc e)), (''success'', JBool False),
                        (''rules'', JList [])]))"

definition get_alert_history ::
  "api_config \<Rightarrow> network \<Rightarrow> string \<Rightarrow> string option \<Rightarrow> string \<Rightarrow> py_exception + json" where
  "get_alert_history api net org_id rule_id time_range =
     try_except
       (and_then (net (get_alert_history_request api org_id rule_id time_range))
          (\<lambda>response. and_then (raise_for_status response) (\<lambda>_. json_result response)))
       (\<lambda>e. Inr (JDict [(''error'', JStr (str_exc e)), (''success'', JBool False),
                        (''events'', JList [])]))"

definition run_pipeline :: "api_config \<Rightarrow> network \<Rightarrow> string \<Rightarrow> bool \<Rightarrow> py_exception + json" where
  "run_pipeline api net org_id use_synthetic =
     try_except
       (and_then (net (run_pipeline_request api org_id use_synthetic))
          (\<lambda>response. and_then (raise_for_status response) (\<lambda>_. json_result response)))
       (\<lambda>e. Inr (JDict [(''error'', JStr (str_exc e)), (''success'', JBool False)]))"

text \<open>\<^verbatim>\<open>list_connectors\<close> makes no HTTP call: its answer is fixed.\<close>

definition list_connectors :: "py_exception + json" where
  "list_connectors =
     Inr (JDict
       [(''success'', JBool True),
        (''connectors'', JList
          [JDict [(''type'', JStr ''stripe''),
                  (''name'', JStr ''Stripe''),
                  (''description'', JStr ''Connect to Stripe for revenue metrics''),
                  (''config_schema'', JDict
                    [(''api_key'', JDict [(''type'', JStr ''string''), (''required'', JBool True)]),
                     (''metrics'', JDict [(''type'', JStr ''array''),
                        (''items'', JList [JStr ''mrr'', JStr ''arr'', JStr ''churn''])])])],
           JDict [(''type'', JStr ''posthog''),
                  (''name'', JStr ''PostHog''),
                  (''description'', JStr ''Connect to PostHog for product analytics''),
                  (''config_schema'', JDict
                    [(''api_key'', JDict [(''type'', JStr ''string''), (''required'', JBool True)]),
                     (''project_id'', JDict [(''type'', JStr ''string''),
                        (''required'', JBool True)])])],
           JDict [(''type'', JStr ''webhook''),
                  (''name'', JStr ''Webhook''),
                  (''description'', JStr ''Receive metrics via HTTP webhook''),
                  (''config_schema'', JDict
                    [(''endpoint'', JDict [(''type'', JStr ''string''),
                        (''auto_generated'', JBool True)])])],
           JDict [(''type'', JStr ''csv''),
                  (''name'', JStr ''CSV Upload''),
                  (''description'', JStr ''Upload historical data via CSV''),
                  (''config_schema'', JDict
                    [(''format'', JDict [(''type'', JStr ''string''),
                        (''enum'', JList [JStr ''time_value'', JStr ''pivot''])])])]])])"

section \<open>The session callback (\<^verbatim>\<open>agents/utils/memory.py\<close>)\<close>

text \<open>
  The callback sees a context object. \<open>invocation_context ctx = None\<close> when the context
  has no attribute \<^verbatim>\<open>_invocation_context\<close>; \<open>memory_service\<close> and \<open>session\<close> are
  \<open>None\<close> when the attribute is missing or is \<^verbatim>\<open>None\<close>. The memory service is any
  object with \<^verbatim>\<open>add_session_to_memory(session)\<close>, which changes the memory bank \<open>'m\<close>
  or raises. The state holds the memory bank and what the logger has written.
\<close>

record session =
  session_ident :: string

type_synonym 'm memory_service = "session \<Rightarrow> 'm \<Rightarrow> (py_exception + unit) \<times> 'm"

record 'm invocation_context =
  memory_service :: "'m memory_service option"
  session :: "session option"

record 'm callback_context =
  invocation_context :: "'m invocation_context option"

datatype log_level = INFO | ERROR

record log_record =
  level :: log_level
  msg :: string
  extra :: "(string \<times> string) list"

record 'm agent_state =
  memory_bank :: 'm
  log :: "log_record list"

definition logger_info :: "string \<Rightarrow> (string \<times> string) list \<Rightarrow> 'm agent_state \<Rightarrow> 'm agent_state" where
  "logger_info m ex st = st\<lparr>log := log st @ [\<lparr>level = INFO, msg = m, extra = ex\<rparr>]\<rparr>"

definition logger_error :: "string \<Rightarrow> (string \<times> string) list \<Rightarrow> 'm agent_state \<Rightarrow> 'm agent_state" where
  "logger_error m ex st = st\<lparr>log := log st @ [\<lparr>level = ERROR, msg = m, extra = ex\<rparr>]\<rparr>"

text \<open>
  The body of the \<^verbatim>\<open>try\<close>: the outcome of the block and the state it leaves.
\<close>

definition save_session_body ::
  "string \<Rightarrow> 'm callback_context \<Rightarrow> 'm agent_state \<Rightarrow> (py_exception + unit) \<times> 'm agent_state" where
  "save_session_body AGENT_SPIFFE_ID ctx st =
     (case invocation_context ctx of
        None \<Rightarrow> (Inr (), st)
      | Some invocation_ctx \<Rightarrow>
          (case (memory_service invocation_ctx, session invocation_ctx) of
             (Some memory_svc, Some s) \<Rightarrow>
               (case memory_svc s (memory_bank st) of
                  (Inl e, m1) \<Rightarrow> (Inl e, st\<lparr>memory_bank := m1\<rparr>)
                | (Inr u, m1) \<Rightarrow>
                    (Inr (),
                     logger_info (''Saved session '' @ session_ident s @ '' to Memory Bank'')
                       [(''spiffe_id'', AGENT_SPIFFE_ID)] (st\<lparr>memory_bank := m1\<rparr>)))
           | _ \<Rightarrow> (Inr (), st)))"

text \<open>
  \<^verbatim>\<open>auto_save_session_to_memory\<close>: the value it returns is \<^verbatim>\<open>None\<close>, written \<open>JNull\<close>;
  the agent runtime keeps the agent's reply when an after-agent callback returns that.
\<close>

definition auto_save_session_to_memory ::
  "string \<Rightarrow> 'm callback_context \<Rightarrow> 'm agent_state \<Rightarrow> (py_exception + json) \<times> 'm agent_state" where
  "auto_save_session_to_memory AGENT_SPIFFE_ID ctx st =
     (case save_session_body AGENT_SPIFFE_ID ctx st of
        (Inr u, st1) \<Rightarrow> (Inr JNull, st1)
      | (Inl e, st1) \<Rightarrow>
          (Inr JNull,
           logger_error (''Failed to save session to Memory Bank: '' @ str_exc e)
             [(''spiffe_id'', AGENT_SPIFFE_ID)] st1))"

section \<open>What a skill's input schema asks for\<close>

text \<open>
  The cards declare, for each skill, an input schema whose \<^verbatim>\<open>required\<close> entry lists field
  names. \<open>missing_required_field\<close> says that the payload of a request lacks a field that
  the schema of the requested skill of that agent lists.
\<close>

definition required_fields :: "AgentSkill \<Rightarrow> string list" where
  "required_fields sk =
     (case map_of (input_schema sk) ''required'' of
        Some (JList fs) \<Rightarrow> concat (map (\<lambda>f. case f of JStr n \<Rightarrow> [n] | _ \<Rightarrow> []) fs)
      | _ \<Rightarrow> [])"

definition missing_required_field :: "config \<Rightarrow> string \<Rightarrow> TaskRequest \<Rightarrow> bool" where
  "missing_required_field cfg agent_name request =
     (case map_of (cards cfg) agent_name of
        None \<Rightarrow> False
      | Some c \<Rightarrow>
          list_ex (\<lambda>sk. skill_name sk = skill request \<and>
                        list_ex (\<lambda>f. \<not> dict_contains (input request) f) (required_fields sk))
            (skills c))"

section \<open>Concrete inputs\<close>

text \<open>The configuration when no environment variable is set.\<close>

definition default_config :: config where
  "default_config = \<lparr>PROJECT_ID = ''intentvision'', LOCATION = ''us-central1'', ENV = ''dev''\<rparr>"

definition noon :: datetime where
  "noon = \<lparr>year = 2025, month = 1, day = 15, hour = 12, minute = 0, second = 0, microsecond = 0\<rparr>"

text \<open>A clock that advances by one microsecond from reading to reading.\<close>

definition fast_world :: "'b \<Rightarrow> 'b world" where
  "fast_world b = \<lparr>utcnow_seq = (\<lambda>k. noon\<lparr>microsecond := Suc k\<rparr>), ticks = 0, backend = b\<rparr>"

text \<open>A clock that advances by one second from reading to reading.\<close>

definition slow_world :: "'b \<Rightarrow> 'b world" where
  "slow_world b = \<lparr>utcnow_seq = (\<lambda>k. noon\<lparr>second := k mod 60\<rparr>), ticks = 0, backend = b\<rparr>"

text \<open>A backend that times out, and one that records what it is sent.\<close>

definition failing_client :: "'b client" where
  "failing_client agent_engine_id message sid w = (Inl (Exception ''timed out''), w)"

definition recording_client :: "(string \<times> string \<times> json) list client" where
  "recording_client agent_engine_id message sid w =
     (Inr [(''session_id'', JStr ''s-1''), (''response'', JStr ''trend is upward'')],
      w\<lparr>backend := backend w @ [(agent_engine_id, message, sid)]\<rparr>)"

definition forecast_task :: TaskRequest where
  "forecast_task =
     \<lparr>skill = ''Explain Forecast'',
      input = [(''org_id'', JStr ''acme''), (''metric_key'', JStr ''revenue.daily'')],
      session_id = None,
      trace_id = None\<rparr>"

definition empty_task :: TaskRequest where
  "empty_task = \<lparr>skill = ''Explain Forecast'', input = [], session_id = None, trace_id = None\<rparr>"


definition chat_body :: dict where
  "chat_body = [(''message'', JStr ''Explain the forecast for revenue''),
                (''org_id'', JStr ''test-org'')]"

text \<open>The API of the tests, a network that is down and one that answers 200 with a payload.\<close>

definition test_api :: api_config where
  "test_api = \<lparr>INTENTVISION_API_URL = ''http://localhost:8080'', INTENTVISION_API_KEY = []\<rparr>"

definition down_network :: network where
  "down_network req = Inl (Exception ''timed out'')"

definition answering_network :: "json \<Rightarrow> network" where
  "answering_network payload req =
     Inr \<lparr>status_code = 200, status_error = [], json_result = Inr payload\<rparr>"

definition forecast_payload :: json where
  "forecast_payload = JDict [(''forecast'', JList []), (''backend'', JStr ''statistical'')]"

text \<open>A memory service that is unavailable, and a context that holds it.\<close>

definition unavailable_memory :: "nat memory_service" where
  "unavailable_memory s m = (Inl (Exception ''memory bank unavailable''), m)"

definition turn_context :: "nat callback_context" where
  "turn_context =
     \<lparr>invocation_context =
        Some \<lparr>memory_service = Some unavailable_memory,
              session = Some \<lparr>session_ident = ''s-1''\<rparr>\<rparr>\<rparr>"

definition quiet_state :: "nat agent_state" where
  "quiet_state = \<lparr>memory_bank = 0, log = []\<rparr>"

section \<open>Facts about the formats\<close>









section \<open>The gateway: task submission\<close>

lemma registered_iff:
  "dict_contains (AGENT_ENGINE_IDS cfg) a \<longleftrightarrow> (\<exists>i. map_of (AGENT_ENGINE_IDS cfg) a = Some i)"
  by (auto simp: dict_contains_def AGENT_ENGINE_IDS_def)

lemma orchestrator_engine_id:
  "map_of (AGENT_ENGINE_IDS cfg) ''orchestrator'' = Some (''intentvision-orchestrator-'' @ ENV cfg)"
  by (simp add: AGENT_ENGINE_IDS_def)

text \<open>The two ways out of the \<^verbatim>\<open>try\<close> of \<open>submit_task\<close>, for a registered agent.\<close>

lemma submit_task_completed:
  assumes "map_of (AGENT_ENGINE_IDS cfg) agent_name = Some agent_engine_id"
      and "call_send_message agent_client agent_engine_id (task_message request)
             (optional_str (session_id request)) w = (Inr response, w1)"
  shows "submit_task cfg agent_client agent_name request w =
           (Inr \<lparr>task_id = ''task-'' @ agent_name @ ''-'' @
                             strftime_YmdHMS (utcnow_seq w1 (ticks w1)),
                 status = ''completed'',
                 created_at = isoformat (utcnow_seq w1 (Suc (ticks w1))),
                 updated_at = isoformat (utcnow_seq w1 (Suc (Suc (ticks w1)))),
                 result = Some response,
                 error = None\<rparr>,
            w1\<lparr>ticks := Suc (Suc (Suc (ticks w1)))\<rparr>)"
proof -
  have "dict_contains (AGENT_ENGINE_IDS cfg) agent_name"
    using assms(1) registered_iff by blast
  then show ?thesis
    using assms by (simp add: submit_task_def utcnow_def)
qed

lemma submit_task_failed:
  assumes "map_of (AGENT_ENGINE_IDS cfg) agent_name = Some agent_engine_id"
      and "call_send_message agent_client agent_engine_id (task_message request)
             (optional_str (session_id request)) w = (Inl e, w1)"
  shows "submit_task cfg agent_client agent_name request w =
           (Inr \<lparr>task_id = ''task-'' @ agent_name @ ''-error'',
                 status = ''failed'',
                 created_at = isoformat (utcnow_seq w1 (ticks w1)),
                 updated_at = isoformat (utcnow_seq w1 (Suc (ticks w1))),
                 result = None,
                 error = Some (str_exc e)\<rparr>,
            w1\<lparr>ticks := Suc (Suc (ticks w1))\<rparr>)"
proof -
  have "dict_contains (AGENT_ENGINE_IDS cfg) agent_name"
    using assms(1) registered_iff by blast
  then show ?thesis
    using assms by (simp add: submit_task_def utcnow_def)
qed

lemma default_orchestrator:
  "map_of (AGENT_ENGINE_IDS default_config) ''orchestrator'' =
     Some ''intentvision-orchestrator-dev''"
  by (simp add: AGENT_ENGINE_IDS_def default_config_def)

lemma failing_client_raises:
  "call_send_message (Some failing_client) i m s w = (Inl (Exception ''timed out''), w)"
  by (simp add: call_send_message_def failing_client_def)

lemma recording_client_returns:
  "call_send_message (Some recording_client) i m s w =
     (Inr [(''session_id'', JStr ''s-1''), (''response'', JStr ''trend is upward'')],
      w\<lparr>backend := backend w @ [(i, m, s)]\<rparr>)"
  by (simp add: call_send_message_def recording_client_def)

text \<open>
  C1. When the agent is registered and \<^verbatim>\<open>send_message\<close> raises \<open>e\<close>, \<open>submit_task\<close>
  returns a task status with status \<^verbatim>\<open>failed\<close> and the error \<^verbatim>\<open>str(e)\<close>; the handler
  returns, so the answer is sent with HTTP 200 and no exception reaches the HTTP layer.
\<close>

theorem submit_task_backend_exception:
  assumes "map_of (AGENT_ENGINE_IDS cfg) agent_name = Some agent_engine_id"
      and "call_send_message agent_client agent_engine_id (task_message request)
             (optional_str (session_id request)) w = (Inl e, w1)"
  shows "\<exists>t w'. submit_task cfg agent_client agent_name request w = (Inr t, w') \<and>
                status t = ''failed'' \<and> error t = Some (str_exc e) \<and> result t = None \<and>
                http_status (fst (submit_task cfg agent_client agent_name request w)) = 200"
  by (simp add: submit_task_failed [OF assms])

theorem submit_task_backend_exception_witness:
  "map_of (AGENT_ENGINE_IDS default_config) ''orchestrator'' =
     Some ''intentvision-orchestrator-dev'' \<and>
   call_send_message (Some failing_client) ''intentvision-orchestrator-dev''
     (task_message forecast_task) (optional_str (session_id forecast_task)) (fast_world ()) =
     (Inl (Exception ''timed out''), fast_world ()) \<and>
   (\<exists>t w'. submit_task default_config (Some failing_client) ''orchestrator'' forecast_task
              (fast_world ()) = (Inr t, w') \<and>
           status t = ''failed'' \<and> error t = Some ''timed out'' \<and> result t = None \<and>
           http_status (fst (submit_task default_config (Some failing_client) ''orchestrator''
              forecast_task (fast_world ()))) = 200)"
proof -
  note h1 = default_orchestrator
  note h2 = failing_client_raises [of "''intentvision-orchestrator-dev''"
      "task_message forecast_task" "optional_str (session_id forecast_task)" "fast_world ()"]
  from submit_task_backend_exception [OF h1 h2] h1 h2 show ?thesis
    by simp
qed

text \<open>
  C2. For a registered agent \<open>submit_task\<close> always returns a task status, and its status
  is \<^verbatim>\<open>completed\<close> or \<^verbatim>\<open>failed\<close>, whatever the client (or its absence), the request
  and the clock.
\<close>

theorem submit_task_status_terminal:
  assumes "dict_contains (AGENT_ENGINE_IDS cfg) agent_name"
  shows "\<exists>t w'. submit_task cfg agent_client agent_name request w = (Inr t, w') \<and>
                (status t = ''completed'' \<or> status t = ''failed'')"
proof -
  from assms obtain i where i: "map_of (AGENT_ENGINE_IDS cfg) agent_name = Some i"
    using registered_iff by blast
  obtain r w1 where c: "call_send_message agent_client i (task_message request)
      (optional_str (session_id request)) w = (r, w1)"
    by (cases "call_send_message agent_client i (task_message request)
      (optional_str (session_id request)) w")
  show ?thesis
  proof (cases r)
    case (Inl e)
    with c have "call_send_message agent_client i (task_message request)
        (optional_str (session_id request)) w = (Inl e, w1)"
      by simp
    from submit_task_failed [OF i this] show ?thesis by simp
  next
    case (Inr response)
    with c have "call_send_message agent_client i (task_message request)
        (optional_str (session_id request)) w = (Inr response, w1)"
      by simp
    from submit_task_completed [OF i this] show ?thesis by simp
  qed
qed

theorem submit_task_status_terminal_witness:
  "dict_contains (AGENT_ENGINE_IDS default_config) ''metric-analyst'' \<and>
   (\<exists>t w'. submit_task default_config (lifespan default_config) ''metric-analyst''
              forecast_task (fast_world ()) = (Inr t, w') \<and>
           (status t = ''completed'' \<or> status t = ''failed''))"
proof -
  have h: "dict_contains (AGENT_ENGINE_IDS default_config) ''metric-analyst''"
    by (simp add: dict_contains_def AGENT_ENGINE_IDS_def)
  from submit_task_status_terminal [OF h] h show ?thesis
    by blast
qed

text \<open>
  C3. For a name that is not in \<open>AGENT_ENGINE_IDS\<close>, \<open>get_agent_card\<close> and \<open>submit_task\<close>
  both raise \<open>HTTPException\<close> with status 404; \<open>submit_task\<close> leaves the world as it
  was: no call of the backend, no reading of the clock, no task status.
\<close>

theorem unregistered_agent_not_found:
  assumes "\<not> dict_contains (AGENT_ENGINE_IDS cfg) agent_name"
  shows "get_agent_card cfg agent_name =
           Inl (HTTPException 404 (''Agent not found: '' @ agent_name)) \<and>
         http_status (get_agent_card cfg agent_name) = 404 \<and>
         submit_task cfg agent_client agent_name request w =
           (Inl (HTTPException 404 (''Agent not found: '' @ agent_name)), w) \<and>
         http_status (fst (submit_task cfg agent_client agent_name request w)) = 404"
  using assms by (simp add: get_agent_card_def submit_task_def)

theorem unregistered_agent_not_found_witness:
  "\<not> dict_contains (AGENT_ENGINE_IDS default_config) ''unknown-agent'' \<and>
   get_agent_card default_config ''unknown-agent'' =
     Inl (HTTPException 404 ''Agent not found: unknown-agent'') \<and>
   http_status (get_agent_card default_config ''unknown-agent'') = 404 \<and>
   submit_task default_config (Some recording_client) ''unknown-agent'' forecast_task
     (fast_world []) =
     (Inl (HTTPException 404 ''Agent not found: unknown-agent''), fast_world []) \<and>
   http_status (fst (submit_task default_config (Some recording_client) ''unknown-agent''
     forecast_task (fast_world []))) = 404"
proof -
  have h: "\<not> dict_contains (AGENT_ENGINE_IDS default_config) ''unknown-agent''"
    by (simp add: dict_contains_def AGENT_ENGINE_IDS_def)
  from unregistered_agent_not_found [OF h, of "Some recording_client" forecast_task
      "fast_world []"] h
  show ?thesis by simp
qed

text \<open>
  C6 as stated fails: \<open>submit_task\<close> never looks at a card or a schema. The payload \<open>{}\<close>
  lacks the fields that the skill \<^verbatim>\<open>Explain Forecast\<close> of the orchestrator requires, and
  the backend still receives the message.
\<close>

theorem submit_task_schema_counterexample:
  "missing_required_field default_config ''orchestrator'' empty_task \<and>
   backend (snd (submit_task default_config (Some recording_client) ''orchestrator'' empty_task
                   (fast_world []))) =
     [(''intentvision-orchestrator-dev'',
       ''Execute skill '' @ quoted ''Explain Forecast'' @ '' with input: {}'', JNull)]"
proof -
  have m: "missing_required_field default_config ''orchestrator'' empty_task"
    by (simp add: missing_required_field_def cards_def default_config_def empty_task_def
        required_fields_def dict_contains_def)
  have t: "task_message empty_task =
             ''Execute skill '' @ quoted ''Explain Forecast'' @ '' with input: {}''"
    by (simp add: task_message_def empty_task_def)
  have "backend (snd (submit_task default_config (Some recording_client) ''orchestrator''
                        empty_task (fast_world []))) =
          [(''intentvision-orchestrator-dev'', task_message empty_task,
            optional_str (session_id empty_task))]"
    by (simp add: submit_task_completed [OF default_orchestrator recording_client_returns]
        fast_world_def)
  with m t show ?thesis
    by (simp add: empty_task_def optional_str_def)
qed

text \<open>
  C6, amended. \<open>submit_task\<close> validates nothing: for a registered agent and every request,
  whatever its payload, the backend is left in the state that the one call
  \<^verbatim>\<open>send_message(agent_engine_id, message, session_id)\<close> leaves, the message being built
  from the skill name and the payload.
\<close>

theorem submit_task_dispatches_every_payload:
  assumes "map_of (AGENT_ENGINE_IDS cfg) agent_name = Some agent_engine_id"
  shows "backend (snd (submit_task cfg (Some c) agent_name request w)) =
         backend (snd (c agent_engine_id (task_message request)
                         (optional_str (session_id request)) w))"
proof -
  obtain r w1 where c: "c agent_engine_id (task_message request)
      (optional_str (session_id request)) w = (r, w1)"
    by (cases "c agent_engine_id (task_message request) (optional_str (session_id request)) w")
  then have s: "call_send_message (Some c) agent_engine_id (task_message request)
      (optional_str (session_id request)) w = (r, w1)"
    by (simp add: call_send_message_def)
  show ?thesis
  proof (cases r)
    case (Inl e)
    with s have "call_send_message (Some c) agent_engine_id (task_message request)
        (optional_str (session_id request)) w = (Inl e, w1)"
      by simp
    from submit_task_failed [OF assms this] c show ?thesis by simp
  next
    case (Inr response)
    with s have "call_send_message (Some c) agent_engine_id (task_message request)
        (optional_str (session_id request)) w = (Inr response, w1)"
      by simp
    from submit_task_completed [OF assms this] c show ?thesis by simp
  qed
qed

theorem submit_task_dispatches_every_payload_witness:
  "map_of (AGENT_ENGINE_IDS default_config) ''orchestrator'' =
     Some ''intentvision-orchestrator-dev'' \<and>
   backend (snd (submit_task default_config (Some recording_client) ''orchestrator''
                   empty_task (slow_world []))) =
     [(''intentvision-orchestrator-dev'', task_message empty_task, JNull)]"
proof -
  from submit_task_dispatches_every_payload [OF default_orchestrator,
      of recording_client empty_task "slow_world []"]
  show ?thesis
    by (simp add: default_orchestrator recording_client_def slow_world_def empty_task_def
        optional_str_def)
qed

section \<open>The gateway: task ids\<close>




section \<open>The gateway: the chat endpoint\<close>

text \<open>What the chat handler does with a body that is a JSON object.\<close>

lemma chat_message_required:
  "\<not> truthy (dict_get body ''message'' (JStr [])) \<Longrightarrow>
   chat_with_orchestrator cfg agent_client (Inr (JDict body)) w =
     (Inl (HTTPException 400 ''message is required''), w)"
  by (simp add: chat_with_orchestrator_def)

lemma chat_org_id_required:
  "truthy (dict_get body ''message'' (JStr [])) \<Longrightarrow>
   \<not> truthy (dict_get body ''org_id'' (JStr [])) \<Longrightarrow>
   chat_with_orchestrator cfg agent_client (Inr (JDict body)) w =
     (Inl (HTTPException 400 ''org_id is required''), w)"
  by (simp add: chat_with_orchestrator_def)

lemma chat_dispatch:
  "truthy (dict_get body ''message'' (JStr [])) \<Longrightarrow>
   truthy (dict_get body ''org_id'' (JStr [])) \<Longrightarrow>
   chat_with_orchestrator cfg agent_client (Inr (JDict body)) w =
     (case call_send_message agent_client (''intentvision-orchestrator-'' @ ENV cfg)
             (chat_message (dict_get body ''org_id'' (JStr []))
                (dict_get body ''message'' (JStr [])))
             (dict_get body ''session_id'' JNull) w of
        (Inl e, w1) \<Rightarrow> (Inl e, w1)
      | (Inr response, w1) \<Rightarrow>
          (Inr [(''response'', dict_get response ''response'' (JStr [])),
                (''session_id'', dict_get response ''session_id'' JNull),
                (''trace_id'', dict_get response ''trace_id'' JNull)], w1))"
  by (simp add: chat_with_orchestrator_def orchestrator_engine_id)

text \<open>
  With the client of the source in place (after \<open>lifespan\<close>), a body with both fields is
  answered with 200, and neither \<^verbatim>\<open>response\<close> nor \<^verbatim>\<open>session_id\<close> is null.
\<close>

lemma chat_with_stub_client:
  assumes "truthy (dict_get body ''message'' (JStr []))"
      and "truthy (dict_get body ''org_id'' (JStr []))"
  shows "\<exists>r w'. chat_with_orchestrator cfg (lifespan cfg) (Inr (JDict body)) w = (Inr r, w') \<and>
                http_status (fst (chat_with_orchestrator cfg (lifespan cfg)
                                    (Inr (JDict body)) w)) = 200 \<and>
                dict_get r ''response'' JNull \<noteq> JNull \<and>
                dict_get r ''session_id'' JNull \<noteq> JNull"
  using assms(1,2)
  by (cases "dict_get body ''session_id'' JNull")
     (auto simp: chat_dispatch [OF assms] lifespan_def call_send_message_def send_message_def
        utcnow_def dict_get_def)

text \<open>
  C8, at the input where the code leaves it. The body holds \<^verbatim>\<open>message\<close> and
  \<^verbatim>\<open>org_id\<close>; the backend times out; the exception leaves the handler and the answer is
  500, where the claim has 200. The same happens while \<^verbatim>\<open>agent_client\<close> is still
  \<^verbatim>\<open>None\<close>.
\<close>

theorem chat_backend_failure_is_500:
  "truthy (dict_get chat_body ''message'' (JStr [])) \<and>
   truthy (dict_get chat_body ''org_id'' (JStr [])) \<and>
   chat_with_orchestrator default_config (Some failing_client) (Inr (JDict chat_body))
     (fast_world ()) = (Inl (Exception ''timed out''), fast_world ()) \<and>
   http_status (fst (chat_with_orchestrator default_config (Some failing_client)
     (Inr (JDict chat_body)) (fast_world ()))) = 500 \<and>
   http_status (fst (chat_with_orchestrator default_config None
     (Inr (JDict chat_body)) (fast_world ()))) = 500"
proof -
  have m: "truthy (dict_get chat_body ''message'' (JStr []))"
    and p: "truthy (dict_get chat_body ''org_id'' (JStr []))"
    by (simp_all add: chat_body_def dict_get_def)
  show ?thesis
    using m p by (simp add: chat_dispatch [OF m p] failing_client_raises)
       (simp add: call_send_message_def)
qed

text \<open>
  C10. In the chat handler the call of \<^verbatim>\<open>send_message\<close> stands outside any \<^verbatim>\<open>try\<close>:
  when the body holds \<^verbatim>\<open>message\<close> and \<^verbatim>\<open>org_id\<close> and the call raises \<open>e\<close>, the
  handler raises \<open>e\<close>, where \<open>submit_task\<close>, given an exception by the same client,
  returns a task status.
\<close>

theorem chat_backend_exception_escapes:
  assumes "truthy (dict_get body ''message'' (JStr []))"
      and "truthy (dict_get body ''org_id'' (JStr []))"
      and "call_send_message agent_client (''intentvision-orchestrator-'' @ ENV cfg)
             (chat_message (dict_get body ''org_id'' (JStr []))
                (dict_get body ''message'' (JStr [])))
             (dict_get body ''session_id'' JNull) w = (Inl e, w1)"
      and "call_send_message agent_client (''intentvision-orchestrator-'' @ ENV cfg)
             (task_message request) (optional_str (session_id request)) w = (Inl e', w2)"
  shows "chat_with_orchestrator cfg agent_client (Inr (JDict body)) w = (Inl e, w1) \<and>
         (\<exists>t w'. submit_task cfg agent_client ''orchestrator'' request w = (Inr t, w') \<and>
                 status t = ''failed'' \<and> error t = Some (str_exc e'))"
  using assms(3)
  by (simp add: chat_dispatch [OF assms(1,2)]
      submit_task_failed [OF orchestrator_engine_id assms(4)])

theorem chat_backend_exception_escapes_witness:
  "chat_with_orchestrator default_config None
     (Inr (JDict [(''message'', JStr ''Hello''), (''org_id'', JStr ''acme'')])) (slow_world ()) =
     (Inl (Exception (quoted ''NoneType'' @ '' object has no attribute '' @
                      quoted ''send_message'')), slow_world ()) \<and>
   (\<exists>t w'. submit_task default_config None ''orchestrator'' forecast_task (slow_world ()) =
             (Inr t, w') \<and>
           status t = ''failed'' \<and>
           error t = Some (quoted ''NoneType'' @ '' object has no attribute '' @
                           quoted ''send_message''))"
proof -
  let ?body = "[(''message'', JStr ''Hello''), (''org_id'', JStr ''acme'')]"
  have m: "truthy (dict_get ?body ''message'' (JStr []))"
    and p: "truthy (dict_get ?body ''org_id'' (JStr []))"
    by (simp_all add: dict_get_def)
  have n: "call_send_message None i s sid (slow_world ()) =
             (Inl (Exception (quoted ''NoneType'' @ '' object has no attribute '' @
                              quoted ''send_message'')), slow_world ())" for i s sid
    by (simp add: call_send_message_def)
  from chat_backend_exception_escapes [OF m p n n, of default_config forecast_task]
  show ?thesis by simp
qed

section \<open>The tools\<close>

text \<open>
  What can go wrong with the exchange for a request: the call raises, the status is not
  2xx, or the body does not decode. \<open>transport_failure\<close> gives the exception of the
  first of these that happens, and \<open>None\<close> when the exchange succeeds.
\<close>

lemma exchange_cases:
  obtains (raised) e where "net req = Inl e"
  | (status) response e where "net req = Inr response" "raise_for_status response = Inl e"
  | (malformed) response e where "net req = Inr response" "raise_for_status response = Inr ()"
      "json_result response = Inl e"
  | (ok) response payload where "net req = Inr response" "raise_for_status response = Inr ()"
      "json_result response = Inr payload"
proof (cases "net req")
  case (Inl e)
  then show ?thesis by (rule raised)
next
  case (Inr response)
  note r = this
  show ?thesis
  proof (cases "raise_for_status response")
    case (Inl e)
    with r show ?thesis by (rule status)
  next
    case (Inr u)
    then have s: "raise_for_status response = Inr ()" by simp
    show ?thesis
    proof (cases "json_result response")
      case (Inl e)
      with r s show ?thesis by (rule malformed)
    next
      case (Inr payload)
      with r s show ?thesis by (rule ok)
    qed
  qed
qed

lemma exchange_fails:
  assumes "transport_failure net req = Some e"
  shows "try_except
           (and_then (net req)
              (\<lambda>response. and_then (raise_for_status response) (\<lambda>_. json_result response)))
           handler = handler e"
  using assms
  by (cases rule: exchange_cases [of net req])
     (simp_all add: transport_failure_def try_except_def and_then_def)

lemma exchange_returns:
  assumes "\<And>e. \<exists>v. handler e = Inr v"
  shows "\<exists>v. try_except
           (and_then (net req)
              (\<lambda>response. and_then (raise_for_status response) (\<lambda>_. json_result response)))
           handler = Inr v"
  using assms
  by (cases rule: exchange_cases [of net req])
     (simp_all add: try_except_def and_then_def)

lemma exchange_payload:
  assumes "transport_payload net req = Some payload"
  shows "try_except
           (and_then (net req)
              (\<lambda>response. and_then (raise_for_status response) (\<lambda>_. json_result response)))
           handler = Inr payload"
  using assms
  by (cases rule: exchange_cases [of net req])
     (simp_all add: transport_payload_def try_except_def and_then_def)

lemma answering_network_answers: "transport_payload (answering_network payload) req = Some payload"
  by (simp add: transport_payload_def answering_network_def raise_for_status_def)

lemma down_network_fails: "transport_failure down_network req = Some (Exception ''timed out'')"
  by (simp add: transport_failure_def down_network_def)

text \<open>
  C4. Each of the six tools that call the API returns a value for every input and every
  behaviour of the network: no exception leaves a tool. When the exchange fails with
  \<open>e\<close> (the call raises, the status is not 2xx, or the body is malformed), the value is a
  dict with \<^verbatim>\<open>success\<close> false and \<^verbatim>\<open>error\<close> the text of \<open>e\<close>.
\<close>

theorem tools_fold_transport_failure:
  "(\<exists>v. get_forecast api net org_id metric_key horizon backend_name = Inr v) \<and>
   (\<exists>v. get_anomalies api net org_id opt_key time_range min_severity = Inr v) \<and>
   (\<exists>v. get_metric_history api net org_id metric_key time_range = Inr v) \<and>
   (\<exists>v. get_alert_rules api net org_id = Inr v) \<and>
   (\<exists>v. get_alert_history api net org_id rule_id time_range = Inr v) \<and>
   (\<exists>v. run_pipeline api net org_id use_synthetic = Inr v) \<and>
   (transport_failure net (get_forecast_request api org_id metric_key horizon backend_name) =
      Some e1 \<longrightarrow>
    (\<exists>d. get_forecast api net org_id metric_key horizon backend_name = Inr (JDict d) \<and>
         map_of d ''success'' = Some (JBool False) \<and>
         map_of d ''error'' = Some (JStr (str_exc e1)))) \<and>
   (transport_failure net (get_anomalies_request api org_id opt_key time_range min_severity) =
      Some e2 \<longrightarrow>
    (\<exists>d. get_anomalies api net org_id opt_key time_range min_severity = Inr (JDict d) \<and>
         map_of d ''success'' = Some (JBool False) \<and>
         map_of d ''error'' = Some (JStr (str_exc e2)))) \<and>
   (transport_failure net (get_metric_history_request api org_id metric_key time_range) =
      Some e3 \<longrightarrow>
    (\<exists>d. get_metric_history api net org_id metric_key time_range = Inr (JDict d) \<and>
         map_of d ''success'' = Some (JBool False) \<and>
         map_of d ''error'' = Some (JStr (str_exc e3)))) \<and>
   (transport_failure net (get_alert_rules_request api org_id) = Some e4 \<longrightarrow>
    (\<exists>d. get_alert_rules api net org_id = Inr (JDict d) \<and>
         map_of d ''success'' = Some (JBool False) \<and>
         map_of d ''error'' = Some (JStr (str_exc e4)))) \<and>
   (transport_failure net (get_alert_history_request api org_id rule_id time_range) =
      Some e5 \<longrightarrow>
    (\<exists>d. get_alert_history api net org_id rule_id time_range = Inr (JDict d) \<and>
         map_of d ''success'' = Some (JBool False) \<and>
         map_of d ''error'' = Some (JStr (str_exc e5)))) \<and>
   (transport_failure net (run_pipeline_request api org_id use_synthetic) = Some e6 \<longrightarrow>
    (\<exists>d. run_pipeline api net org_id use_synthetic = Inr (JDict d) \<and>
         map_of d ''success'' = Some (JBool False) \<and>
         map_of d ''error'' = Some (JStr (str_exc e6))))"
proof -
  have r1: "\<exists>v. get_forecast api net org_id metric_key horizon backend_name = Inr v"
    unfolding get_forecast_def by (rule exchange_returns) simp
  have r2: "\<exists>v. get_anomalies api net org_id opt_key time_range min_severity = Inr v"
    unfolding get_anomalies_def by (rule exchange_returns) simp
  have r3: "\<exists>v. get_metric_history api net org_id metric_key time_range = Inr v"
    unfolding get_metric_history_def by (rule exchange_returns) simp
  have r4: "\<exists>v. get_alert_rules api net org_id = Inr v"
    unfolding get_alert_rules_def by (rule exchange_returns) simp
  have r5: "\<exists>v. get_alert_history api net org_id rule_id time_range = Inr v"
    unfolding get_alert_history_def by (rule exchange_returns) simp
  have r6: "\<exists>v. run_pipeline api net org_id use_synthetic = Inr v"
    unfolding run_pipeline_def by (rule exchange_returns) simp
  have f1: "transport_failure net
              (get_forecast_request api org_id metric_key horizon backend_name) = Some e1 \<longrightarrow>
            (\<exists>d. get_forecast api net org_id metric_key horizon backend_name = Inr (JDict d) \<and>
                 map_of d ''success'' = Some (JBool False) \<and>
                 map_of d ''error'' = Some (JStr (str_exc e1)))"
    by (simp add: get_forecast_def exchange_fails)
  have f2: "transport_failure net
              (get_anomalies_request api org_id opt_key time_range min_severity) = Some e2 \<longrightarrow>
            (\<exists>d. get_anomalies api net org_id opt_key time_range min_severity = Inr (JDict d) \<and>
                 map_of d ''success'' = Some (JBool False) \<and>
                 map_of d ''error'' = Some (JStr (str_exc e2)))"
    by (simp add: get_anomalies_def exchange_fails)
  have f3: "transport_failure net
              (get_metric_history_request api org_id metric_key time_range) = Some e3 \<longrightarrow>
            (\<exists>d. get_metric_history api net org_id metric_key time_range = Inr (JDict d) \<and>
                 map_of d ''success'' = Some (JBool False) \<and>
                 map_of d ''error'' = Some (JStr (str_exc e3)))"
    by (simp add: get_metric_history_def exchange_fails)
  have f4: "transport_failure net (get_alert_rules_request api org_id) = Some e4 \<longrightarrow>
            (\<exists>d. get_alert_rules api net org_id = Inr (JDict d) \<and>
                 map_of d ''success'' = Some (JBool False) \<and>
                 map_of d ''error'' = Some (JStr (str_exc e4)))"
    by (simp add: get_alert_rules_def exchange_fails)
  have f5: "transport_failure net
              (get_alert_history_request api org_id rule_id time_range) = Some e5 \<longrightarrow>
            (\<exists>d. get_alert_history api net org_id rule_id time_range = Inr (JDict d) \<and>
                 map_of d ''success'' = Some (JBool False) \<and>
                 map_of d ''error'' = Some (JStr (str_exc e5)))"
    by (simp add: get_alert_history_def exchange_fails)
  have f6: "transport_failure net (run_pipeline_request api org_id use_synthetic) = Some e6 \<longrightarrow>
            (\<exists>d. run_pipeline api net org_id use_synthetic = Inr (JDict d) \<and>
                 map_of d ''success'' = Some (JBool False) \<and>
                 map_of d ''error'' = Some (JStr (str_exc e6)))"
    by (simp add: run_pipeline_def exchange_fails)
  from r1 r2 r3 r4 r5 r6 f1 f2 f3 f4 f5 f6 show ?thesis
    by (intro conjI)
qed

theorem tools_fold_transport_failure_witness:
  "transport_failure down_network
     (get_forecast_request test_api ''org-123'' ''revenue.daily'' 7 ''statistical'') =
     Some (Exception ''timed out'') \<and>
   (\<exists>d. get_forecast test_api down_network ''org-123'' ''revenue.daily'' 7 ''statistical'' =
          Inr (JDict d) \<and>
        map_of d ''success'' = Some (JBool False) \<and> map_of d ''error'' = Some (JStr ''timed out'')) \<and>
   (\<exists>d. get_anomalies test_api down_network ''org-123'' (Some ''revenue.daily'') ''7d''
          ''warning'' = Inr (JDict d) \<and>
        map_of d ''success'' = Some (JBool False) \<and> map_of d ''error'' = Some (JStr ''timed out'')) \<and>
   (\<exists>d. get_metric_history test_api down_network ''org-123'' ''revenue.daily'' ''7d'' =
          Inr (JDict d) \<and>
        map_of d ''success'' = Some (JBool False) \<and> map_of d ''error'' = Some (JStr ''timed out'')) \<and>
   (\<exists>d. get_alert_rules test_api down_network ''org-123'' = Inr (JDict d) \<and>
        map_of d ''success'' = Some (JBool False) \<and> map_of d ''error'' = Some (JStr ''timed out'')) \<and>
   (\<exists>d. get_alert_history test_api down_network ''org-123'' None ''7d'' = Inr (JDict d) \<and>
        map_of d ''success'' = Some (JBool False) \<and> map_of d ''error'' = Some (JStr ''timed out'')) \<and>
   (\<exists>d. run_pipeline test_api down_network ''org-123'' True = Inr (JDict d) \<and>
        map_of d ''success'' = Some (JBool False) \<and> map_of d ''error'' = Some (JStr ''timed out''))"
proof -
  note t = tools_fold_transport_failure [where api = test_api and net = down_network
      and org_id = "''org-123''" and metric_key = "''revenue.daily''" and horizon = 7
      and backend_name = "''statistical''" and opt_key = "Some ''revenue.daily''"
      and time_range = "''7d''" and min_severity = "''warning''" and rule_id = None
      and use_synthetic = True and ?e1.0 = "Exception ''timed out''"
      and ?e2.0 = "Exception ''timed out''" and ?e3.0 = "Exception ''timed out''"
      and ?e4.0 = "Exception ''timed out''" and ?e5.0 = "Exception ''timed out''"
      and ?e6.0 = "Exception ''timed out''"]
  from t show ?thesis
    unfolding down_network_fails by simp
qed

text \<open>
  C5 as stated fails. The network answers 200 with the payload of the repository's own
  test, \<^verbatim>\<open>{"forecast": [], "backend": "statistical"}\<close>; \<open>get_forecast\<close> returns that
  payload as it is, and it has no \<^verbatim>\<open>success\<close> entry.
\<close>

theorem tool_success_field_counterexample:
  "get_forecast test_api (answering_network forecast_payload) ''org-123'' ''revenue.daily'' 7
     ''statistical'' =
     Inr (JDict [(''forecast'', JList []), (''backend'', JStr ''statistical'')]) \<and>
   map_of [(''forecast'', JList []), (''backend'', JStr ''statistical'')] ''success'' \<noteq>
     Some (JBool True)"
  by (simp add: get_forecast_def answering_network_def forecast_payload_def try_except_def
      and_then_def raise_for_status_def)

text \<open>
  C5, amended. When the exchange for a tool's request succeeds (a response with a 2xx
  status whose body decodes to a payload), the tool returns that payload itself,
  unchanged; no \<^verbatim>\<open>success\<close> field is added. Only \<open>list_connectors\<close>, which makes no
  HTTP call, answers with \<^verbatim>\<open>success\<close> true.
\<close>

theorem tools_return_payload_unchanged:
  "(transport_payload net (get_forecast_request api org_id metric_key horizon backend_name) =
      Some p1 \<longrightarrow>
    get_forecast api net org_id metric_key horizon backend_name = Inr p1) \<and>
   (transport_payload net (get_anomalies_request api org_id opt_key time_range min_severity) =
      Some p2 \<longrightarrow>
    get_anomalies api net org_id opt_key time_range min_severity = Inr p2) \<and>
   (transport_payload net (get_metric_history_request api org_id metric_key time_range) =
      Some p3 \<longrightarrow>
    get_metric_history api net org_id metric_key time_range = Inr p3) \<and>
   (transport_payload net (get_alert_rules_request api org_id) = Some p4 \<longrightarrow>
    get_alert_rules api net org_id = Inr p4) \<and>
   (transport_payload net (get_alert_history_request api org_id rule_id time_range) =
      Some p5 \<longrightarrow>
    get_alert_history api net org_id rule_id time_range = Inr p5) \<and>
   (transport_payload net (run_pipeline_request api org_id use_synthetic) = Some p6 \<longrightarrow>
    run_pipeline api net org_id use_synthetic = Inr p6) \<and>
   (\<exists>d. list_connectors = Inr (JDict d) \<and> map_of d ''success'' = Some (JBool True))"
  by (simp add: get_forecast_def get_anomalies_def get_metric_history_def get_alert_rules_def
      get_alert_history_def run_pipeline_def exchange_payload list_connectors_def)

theorem tools_return_payload_unchanged_witness:
  "transport_payload (answering_network forecast_payload)
     (get_forecast_request test_api ''org-123'' ''revenue.daily'' 7 ''statistical'') =
     Some forecast_payload \<and>
   get_forecast test_api (answering_network forecast_payload) ''org-123'' ''revenue.daily'' 7
     ''statistical'' = Inr forecast_payload \<and>
   get_anomalies test_api (answering_network forecast_payload) ''org-123'' None ''7d''
     ''warning'' = Inr forecast_payload \<and>
   get_metric_history test_api (answering_network forecast_payload) ''org-123''
     ''revenue.daily'' ''7d'' = Inr forecast_payload \<and>
   get_alert_rules test_api (answering_network forecast_payload) ''org-123'' =
     Inr forecast_payload \<and>
   get_alert_history test_api (answering_network forecast_payload) ''org-123'' None ''7d'' =
     Inr forecast_payload \<and>
   run_pipeline test_api (answering_network forecast_payload) ''org-123'' True =
     Inr forecast_payload"
proof -
  note t = tools_return_payload_unchanged [where api = test_api
      and net = "answering_network forecast_payload"
      and org_id = "''org-123''" and metric_key = "''revenue.daily''" and horizon = 7
      and backend_name = "''statistical''" and opt_key = None
      and time_range = "''7d''" and min_severity = "''warning''" and rule_id = None
      and use_synthetic = True and ?p1.0 = forecast_payload and ?p2.0 = forecast_payload
      and ?p3.0 = forecast_payload and ?p4.0 = forecast_payload and ?p5.0 = forecast_payload
      and ?p6.0 = forecast_payload]
  from t show ?thesis
    unfolding answering_network_answers by simp
qed

section \<open>The session callback\<close>

lemma save_session_body_raises:
  assumes "invocation_context ctx = Some invocation_ctx"
      and "memory_service invocation_ctx = Some memory_svc"
      and "session invocation_ctx = Some s"
      and "memory_svc s (memory_bank st) = (Inl e, m1)"
  shows "save_session_body AGENT_SPIFFE_ID ctx st = (Inl e, st\<lparr>memory_bank := m1\<rparr>)"
  using assms by (simp add: save_session_body_def)

text \<open>
  C9. The callback returns \<^verbatim>\<open>None\<close> for every context and every state: it never raises,
  and it hands no replacement for the agent's reply to its caller. When
  \<^verbatim>\<open>add_session_to_memory\<close> raises \<open>e\<close>, all the callback does is to write one error
  record to the log.
\<close>

theorem auto_save_session_never_raises:
  "fst (auto_save_session_to_memory AGENT_SPIFFE_ID ctx st) = Inr JNull \<and>
   (invocation_context ctx = Some invocation_ctx \<and>
    memory_service invocation_ctx = Some memory_svc \<and>
    session invocation_ctx = Some s \<and>
    memory_svc s (memory_bank st) = (Inl e, m1) \<longrightarrow>
    snd (auto_save_session_to_memory AGENT_SPIFFE_ID ctx st) =
      st\<lparr>memory_bank := m1,
         log := log st @ [\<lparr>level = ERROR,
                           msg = ''Failed to save session to Memory Bank: '' @ str_exc e,
                           extra = [(''spiffe_id'', AGENT_SPIFFE_ID)]\<rparr>]\<rparr>)"
proof
  obtain r st1 where b: "save_session_body AGENT_SPIFFE_ID ctx st = (r, st1)"
    by (cases "save_session_body AGENT_SPIFFE_ID ctx st")
  then show "fst (auto_save_session_to_memory AGENT_SPIFFE_ID ctx st) = Inr JNull"
    by (cases r) (simp_all add: auto_save_session_to_memory_def)
next
  show "invocation_context ctx = Some invocation_ctx \<and>
    memory_service invocation_ctx = Some memory_svc \<and>
    session invocation_ctx = Some s \<and>
    memory_svc s (memory_bank st) = (Inl e, m1) \<longrightarrow>
    snd (auto_save_session_to_memory AGENT_SPIFFE_ID ctx st) =
      st\<lparr>memory_bank := m1,
         log := log st @ [\<lparr>level = ERROR,
                           msg = ''Failed to save session to Memory Bank: '' @ str_exc e,
                           extra = [(''spiffe_id'', AGENT_SPIFFE_ID)]\<rparr>]\<rparr>"
  proof
    assume a: "invocation_context ctx = Some invocation_ctx \<and>
      memory_service invocation_ctx = Some memory_svc \<and>
      session invocation_ctx = Some s \<and>
      memory_svc s (memory_bank st) = (Inl e, m1)"
    then have "invocation_context ctx = Some invocation_ctx"
      and "memory_service invocation_ctx = Some memory_svc"
      and "session invocation_ctx = Some s"
      and "memory_svc s (memory_bank st) = (Inl e, m1)"
      by simp_all
    then have "save_session_body AGENT_SPIFFE_ID ctx st = (Inl e, st\<lparr>memory_bank := m1\<rparr>)"
      by (rule save_session_body_raises)
    then show "snd (auto_save_session_to_memory AGENT_SPIFFE_ID ctx st) =
      st\<lparr>memory_bank := m1,
         log := log st @ [\<lparr>level = ERROR,
                           msg = ''Failed to save session to Memory Bank: '' @ str_exc e,
                           extra = [(''spiffe_id'', AGENT_SPIFFE_ID)]\<rparr>]\<rparr>"
      by (simp add: auto_save_session_to_memory_def logger_error_def)
  qed
qed

theorem auto_save_session_never_raises_witness:
  "invocation_context turn_context =
     Some \<lparr>memory_service = Some unavailable_memory,
           session = Some \<lparr>session_ident = ''s-1''\<rparr>\<rparr> \<and>
   unavailable_memory \<lparr>session_ident = ''s-1''\<rparr> (memory_bank quiet_state) =
     (Inl (Exception ''memory bank unavailable''), 0) \<and>
   auto_save_session_to_memory ''spiffe://intent-solutions.io/agent/unknown'' turn_context
     quiet_state =
     (Inr JNull,
      \<lparr>memory_bank = 0,
       log = [\<lparr>level = ERROR,
               msg = ''Failed to save session to Memory Bank: memory bank unavailable'',
               extra = [(''spiffe_id'', ''spiffe://intent-solutions.io/agent/unknown'')]\<rparr>]\<rparr>)"
proof -
  let ?ictx = "\<lparr>memory_service = Some unavailable_memory,
                 session = Some \<lparr>session_ident = ''s-1''\<rparr>\<rparr>"
  have h1: "invocation_context turn_context = Some ?ictx"
    by (simp add: turn_context_def)
  have h2: "unavailable_memory \<lparr>session_ident = ''s-1''\<rparr> (memory_bank quiet_state) =
              (Inl (Exception ''memory bank unavailable''), 0)"
    by (simp add: unavailable_memory_def quiet_state_def)
  note t = auto_save_session_never_raises [where ctx = turn_context and st = quiet_state
      and invocation_ctx = ?ictx and memory_svc = unavailable_memory
      and s = "\<lparr>session_ident = ''s-1''\<rparr>" and e = "Exception ''memory bank unavailable''"
      and ?m1.0 = 0 and AGENT_SPIFFE_ID = "''spiffe://intent-solutions.io/agent/unknown''"]
  from t h1 h2 have
    "fst (auto_save_session_to_memory ''spiffe://intent-solutions.io/agent/unknown''
            turn_context quiet_state) = Inr JNull"
    "snd (auto_save_session_to_memory ''spiffe://intent-solutions.io/agent/unknown''
            turn_context quiet_state) =
       \<lparr>memory_bank = 0,
        log = [\<lparr>level = ERROR,
                msg = ''Failed to save session to Memory Bank: memory bank unavailable'',
                extra = [(''spiffe_id'', ''spiffe://intent-solutions.io/agent/unknown'')]\<rparr>]\<rparr>"
    by (simp_all add: quiet_state_def)
  then have "auto_save_session_to_memory ''spiffe://intent-solutions.io/agent/unknown''
               turn_context quiet_state =
     (Inr JNull,
      \<lparr>memory_bank = 0,
       log = [\<lparr>level = ERROR,
               msg = ''Failed to save session to Memory Bank: memory bank unavailable'',
               extra = [(''spiffe_id'', ''spiffe://intent-solutions.io/agent/unknown'')]\<rparr>]\<rparr>)"
    by (simp add: prod_eq_iff)
  with h1 h2 show ?thesis by blast
qed

end
